theory Spec2Isabelle
  imports Main
begin

section \<open>The polyglot interop client (meta/interop/client.py)\<close>

text \<open>
  A shallow embedding of \<^verbatim>\<open>PolyglotInteropClient\<close>. The client object is a record; every
  method is a function from the client to an outcome and the updated client. What the
  method receives from outside (the broker's HTTP reply, whether the WebSocket handshake
  succeeds, the clock and the random part of a message identifier, whether a library call
  raises) is a parameter. A coroutine that suspends at an \<^verbatim>\<open>await\<close> where other tasks of the
  event loop may run is split there: the part before the suspension and the part after the
  resumption are two functions.
\<close>

subsection \<open>Values and exceptions\<close>

text \<open>What \<^verbatim>\<open>json.loads\<close> returns and \<^verbatim>\<open>json.dumps\<close> takes. Python's \<^verbatim>\<open>None\<close> is \<open>JNull\<close>.\<close>

datatype json =
    JNull
  | JBool bool
  | JNum int
  | JStr string
  | JArr "json list"
  | JObj "(string \<times> json) list"

text \<open>
  The exceptions the modelled paths raise. \<open>Exception s\<close> is \<^verbatim>\<open>raise Exception(s)\<close> of the
  source, with the constant part of the message; \<open>AsyncioTimeoutError\<close> is
  \<^verbatim>\<open>asyncio.TimeoutError\<close> as raised by \<^verbatim>\<open>asyncio.wait_for\<close>; \<open>ClientError\<close> stands for a
  transport failure of the HTTP library. \<open>UnicodeDecodeError\<close> and \<open>RecursionError\<close> are what
  \<^verbatim>\<open>json.loads\<close> raises, besides JSONDecodeError, on bytes that are not UTF-8 and on text
  nested too deeply; neither is a JSONDecodeError.
\<close>

datatype exn =
    Exception string
  | KeyError string
  | AttributeError string
  | TypeError string
  | JSONDecodeError
  | ConnectionClosed
  | InvalidStateError
  | CancelledError
  | AsyncioTimeoutError
  | ClientError string
  | UnicodeDecodeError
  | RecursionError

text \<open>\<^verbatim>\<open>d[k]\<close>: a missing key raises KeyError, a value that is not a dict raises TypeError.\<close>

fun subscript :: "json \<Rightarrow> string \<Rightarrow> exn + json" where
  "subscript (JObj kv) k = (case map_of kv k of None \<Rightarrow> Inl (KeyError k) | Some v \<Rightarrow> Inr v)"
| "subscript _ k = Inl (TypeError ''not subscriptable by str'')"

text \<open>\<^verbatim>\<open>d.get(k)\<close>: a missing key gives None; a value that is not a dict has no \<^verbatim>\<open>get\<close>.\<close>

fun get :: "json \<Rightarrow> string \<Rightarrow> exn + json" where
  "get (JObj kv) k = Inr (case map_of kv k of None \<Rightarrow> JNull | Some v \<Rightarrow> v)"
| "get _ k = Inl (AttributeError ''get'')"

subsection \<open>The outside world\<close>

text \<open>A WebSocket connection object: the peer or the network closes it, the object stays.\<close>

datatype conn = Open | Closed

datatype request =
    POST string json
  | DELETE string

text \<open>What the HTTP library gives back: a status and the parsed body, or it raises.\<close>

datatype reply =
    Reply int json
  | Fails exn

text \<open>
  The observable actions, in the order the code performs them. \<open>Print s\<close> is a call of
  \<^verbatim>\<open>print\<close>, recorded by a short ASCII label for its message; the interpolated values
  are left out.
\<close>

datatype effect =
    Print string
  | Http request
  | SessionOpen
  | SessionClose
  | WsConnect string
  | WsSend json
  | WsClose
  | Sleep nat
  | CreateTask

text \<open>An \<^verbatim>\<open>asyncio.Future\<close> created by \<^verbatim>\<open>send_websocket\<close>.\<close>

datatype fut = Pending | Result json | Cancelled

subsection \<open>The client object\<close>

record InteropConfig =
  server_url :: string
  "module_name" :: string
  language :: string
  port :: "int option"
  auto_register :: bool

text \<open>
  The fields of the instance, as \<^verbatim>\<open>__init__\<close> declares them: \<open>session\<close> is True when
  \<^verbatim>\<open>self.session\<close> is not None; \<open>websocket\<close> is None or the connection object;
  \<open>message_handlers\<close> maps a message identifier to \<^verbatim>\<open>future.set_result\<close> of the future with
  that index in \<open>futures\<close>. \<open>futures\<close> (the futures allocated so far) and \<open>trace\<close> (the actions
  performed so far) are not fields of the Python object: they are the part of the heap and
  of the outside world that the methods act on.
\<close>

record client =
  config :: InteropConfig
  session :: bool
  websocket :: "conn option"
  message_handlers :: "string \<rightharpoonup> nat"
  running :: bool
  futures :: "fut list"
  trace :: "effect list"

definition default_config :: InteropConfig where
  "default_config = \<lparr>server_url = ''http://localhost:4000'', module_name = ''python-module'',
     language = ''python'', port = None, auto_register = True\<rparr>"

definition new_client :: "InteropConfig \<Rightarrow> client" where
  "new_client cfg = \<lparr>config = cfg, session = False, websocket = None,
     message_handlers = Map.empty, running = False, futures = [], trace = []\<rparr>"

definition emit :: "effect \<Rightarrow> client \<Rightarrow> client" where
  "emit e c = c\<lparr>trace := trace c @ [e]\<rparr>"

text \<open>\<^verbatim>\<open>except Exception as e: print(label); raise\<close>\<close>

definition reraise :: "string \<Rightarrow> exn \<Rightarrow> client \<Rightarrow> (exn + 'a) \<times> client" where
  "reraise label e c = (Inl e, emit (Print label) c)"

subsection \<open>Request/reply operations\<close>

text \<open>
  Every operation of the request/reply channel runs inside
  \<^verbatim>\<open>try: ... except Exception as e: print(...); raise\<close>. With \<^verbatim>\<open>self.session\<close> None the
  attribute lookup \<^verbatim>\<open>self.session.post\<close> raises AttributeError inside that \<^verbatim>\<open>try\<close>.
\<close>

definition register_body :: "InteropConfig \<Rightarrow> json" where
  "register_body cfg = JObj [(''name'', JStr (module_name cfg)), (''language'', JStr (language cfg)),
     (''endpoints'', JArr [JStr ''rpc'']),
     (''port'', case port cfg of None \<Rightarrow> JNull | Some p \<Rightarrow> JNum p)]"

definition register :: "(request \<Rightarrow> reply) \<Rightarrow> client \<Rightarrow> (exn + unit) \<times> client" where
  "register http c =
     (if \<not> session c then reraise ''Registration failed'' (AttributeError ''post'') c
      else
        let req = POST (server_url (config c) @ ''/register'') (register_body (config c));
            c1 = emit (Http req) c
        in case http req of
             Fails e \<Rightarrow> reraise ''Registration failed'' e c1
           | Reply status result \<Rightarrow>
               if status \<noteq> 200 then reraise ''Registration failed'' (Exception ''Registration failed'') c1
               else (case subscript result ''message'' of
                       Inl e \<Rightarrow> reraise ''Registration failed'' e c1
                     | Inr m \<Rightarrow> (Inr (), emit (Print ''Module registered'') c1)))"

definition unregister :: "(request \<Rightarrow> reply) \<Rightarrow> client \<Rightarrow> (exn + unit) \<times> client" where
  "unregister http c =
     (if \<not> session c then reraise ''Unregistration failed'' (AttributeError ''delete'') c
      else
        let req = DELETE (server_url (config c) @ ''/register/'' @ module_name (config c));
            c1 = emit (Http req) c
        in case http req of
             Fails e \<Rightarrow> reraise ''Unregistration failed'' e c1
           | Reply status result \<Rightarrow>
               if status \<noteq> 200 then reraise ''Unregistration failed'' (Exception ''Unregistration failed'') c1
               else (case subscript result ''message'' of
                       Inl e \<Rightarrow> reraise ''Unregistration failed'' e c1
                     | Inr m \<Rightarrow> (Inr (), emit (Print ''Module unregistered'') c1)))"

text \<open>\<^verbatim>\<open>if params is None: params = {}\<close>\<close>

definition default_params :: "json option \<Rightarrow> json" where
  "default_params params = (case params of None \<Rightarrow> JObj [] | Some p \<Rightarrow> p)"

definition rpc_body :: "string \<Rightarrow> string \<Rightarrow> json \<Rightarrow> json" where
  "rpc_body target method params =
     JObj [(''target'', JStr target), (''method'', JStr method), (''params'', params)]"

definition call :: "(request \<Rightarrow> reply) \<Rightarrow> string \<Rightarrow> string \<Rightarrow> json option \<Rightarrow> client
    \<Rightarrow> (exn + json) \<times> client" where
  "call http target method params c =
     (let params = default_params params in
      if \<not> session c then reraise ''RPC call failed'' (AttributeError ''post'') c
      else
        let req = POST (server_url (config c) @ ''/rpc'') (rpc_body target method params);
            c1 = emit (Http req) c
        in case http req of
             Fails e \<Rightarrow> reraise ''RPC call failed'' e c1
           | Reply status result \<Rightarrow>
               if status \<noteq> 200 then reraise ''RPC call failed'' (Exception ''RPC call failed'') c1
               else (case subscript result ''result'' of
                       Inl e \<Rightarrow> reraise ''RPC call failed'' e c1
                     | Inr r \<Rightarrow> (Inr r, c1)))"

definition queue_body :: "string \<Rightarrow> string \<Rightarrow> json \<Rightarrow> int \<Rightarrow> json" where
  "queue_body target method params priority =
     JObj [(''target'', JStr target), (''method'', JStr method), (''params'', params),
           (''priority'', JNum priority)]"

definition send :: "(request \<Rightarrow> reply) \<Rightarrow> string \<Rightarrow> string \<Rightarrow> json option \<Rightarrow> int \<Rightarrow> client
    \<Rightarrow> (exn + json) \<times> client" where
  "send http target method params priority c =
     (let params = default_params params in
      if \<not> session c then reraise ''Message send failed'' (AttributeError ''post'') c
      else
        let req = POST (server_url (config c) @ ''/queue'') (queue_body target method params priority);
            c1 = emit (Http req) c
        in case http req of
             Fails e \<Rightarrow> reraise ''Message send failed'' e c1
           | Reply status result \<Rightarrow>
               if status \<noteq> 200 then reraise ''Message send failed'' (Exception ''Message send failed'') c1
               else (case subscript result ''messageId'' of
                       Inl e \<Rightarrow> reraise ''Message send failed'' e c1
                     | Inr r \<Rightarrow> (Inr r, emit (Print ''Message queued'') c1)))"

subsection \<open>The duplex channel: connecting and receiving\<close>

text \<open>\<^verbatim>\<open>self.config.server_url.replace("http", "ws")\<close>: every occurrence, left to right.\<close>

fun replace_http_ws :: "string \<Rightarrow> string" where
  "replace_http_ws [] = []"
| "replace_http_ws (x # xs) =
     (if take 4 (x # xs) = ''http'' then ''ws'' @ replace_http_ws (drop 3 xs)
      else x # replace_http_ws xs)"

text \<open>
  \<open>handshake\<close> says whether \<^verbatim>\<open>websockets.connect\<close> returns a connection or raises. The
  exception is caught and printed, and not raised again.
\<close>

definition connect_websocket :: "bool \<Rightarrow> client \<Rightarrow> client" where
  "connect_websocket handshake c =
     (let ws_url = replace_http_ws (server_url (config c));
          c1 = emit (WsConnect ws_url) c
      in if handshake
         then emit CreateTask (emit (Print ''WebSocket connected'') (c1\<lparr>websocket := Some Open\<rparr>))
         else emit (Print ''Failed to connect WebSocket'') c1)"

text \<open>\<^verbatim>\<open>future.set_result(v)\<close> raises InvalidStateError unless the future is pending.\<close>

definition set_result :: "nat \<Rightarrow> json \<Rightarrow> fut list \<Rightarrow> exn + fut list" where
  "set_result i v fs =
     (if i < length fs \<and> fs ! i = Pending then Inr (fs[i := Result v]) else Inl InvalidStateError)"

text \<open>
  \<^verbatim>\<open>_handle_websocket_message\<close>. In the \<^verbatim>\<open>response\<close> branch, \<^verbatim>\<open>message_id in
  self.message_handlers\<close> raises TypeError for an unhashable identifier (a list or a
  dict), and is False for an identifier that is no string, since every key is one. The
  handler is popped before \<^verbatim>\<open>message["result"]\<close> is read.
\<close>

definition handle_websocket_message :: "json \<Rightarrow> client \<Rightarrow> (exn + unit) \<times> client" where
  "handle_websocket_message message c =
     (case get message ''type'' of
        Inl e \<Rightarrow> (Inl e, c)
      | Inr msg_type \<Rightarrow>
          if msg_type = JStr ''modules'' then
            (case subscript message ''data'' of
               Inl e \<Rightarrow> (Inl e, c)
             | Inr d \<Rightarrow> (Inr (), emit (Print ''Available modules'') c))
          else if msg_type = JStr ''response'' then
            (case get message ''id'' of
               Inl e \<Rightarrow> (Inl e, c)
             | Inr (JArr xs) \<Rightarrow> (Inl (TypeError ''unhashable type''), c)
             | Inr (JObj kv) \<Rightarrow> (Inl (TypeError ''unhashable type''), c)
             | Inr (JStr message_id) \<Rightarrow>
                 (case message_handlers c message_id of
                    None \<Rightarrow> (Inr (), c)
                  | Some handler \<Rightarrow>
                      let c1 = c\<lparr>message_handlers := (message_handlers c)(message_id := None)\<rparr>
                      in case subscript message ''result'' of
                           Inl e \<Rightarrow> (Inl e, c1)
                         | Inr v \<Rightarrow>
                             (case set_result handler v (futures c1) of
                                Inl e \<Rightarrow> (Inl e, c1)
                              | Inr fs \<Rightarrow> (Inr (), c1\<lparr>futures := fs\<rparr>)))
             | Inr other \<Rightarrow> (Inr (), c))
          else if msg_type = JStr ''error'' then
            (case subscript message ''error'' of
               Inl e \<Rightarrow> (Inl e, c)
             | Inr err \<Rightarrow> (Inr (), emit (Print ''WebSocket error'') c))
          else (Inr (), emit (Print ''Unknown WebSocket message'') c))"

text \<open>
  A frame as it arrives: one that \<^verbatim>\<open>json.loads\<close> parses to a value, or one it rejects, with
  the exception it raises (JSONDecodeError for text that is not JSON, UnicodeDecodeError
  for a binary frame that is not UTF-8, RecursionError for text nested too deeply).
\<close>

datatype wire = Parses json | Unparseable exn

definition json_loads :: "wire \<Rightarrow> exn + json" where
  "json_loads w = (case w of Parses v \<Rightarrow> Inr v | Unparseable e \<Rightarrow> Inl e)"

text \<open>
  The body of \<^verbatim>\<open>async for message in self.websocket\<close>, over the frames that arrive. The
  inner \<^verbatim>\<open>try\<close> catches JSONDecodeError only; any other exception leaves the loop, with the
  remaining frames unread.
\<close>

fun listen_loop :: "wire list \<Rightarrow> client \<Rightarrow> exn option \<times> client" where
  "listen_loop [] c = (None, c)"
| "listen_loop (message # rest) c =
     (case json_loads message of
        Inl e \<Rightarrow>
          if e = JSONDecodeError
          then listen_loop rest (emit (Print ''Failed to parse WebSocket message'') c)
          else (Some e, c)
      | Inr data \<Rightarrow>
          (case handle_websocket_message data c of
             (Inl e, c1) \<Rightarrow>
               if e = JSONDecodeError
               then listen_loop rest (emit (Print ''Failed to parse WebSocket message'') c1)
               else (Some e, c1)
           | (Inr u, c1) \<Rightarrow> listen_loop rest c1))"

text \<open>
  How the iteration ends once the frames are read: the iterator is exhausted (the
  connection was closed normally), or it raises (ConnectionClosed when the connection
  was lost). Either way the connection object, if the client still holds it, is closed.
\<close>

datatype ending = Exhausted | Raises exn

definition connection_closed :: "client \<Rightarrow> client" where
  "connection_closed c = c\<lparr>websocket := map_option (\<lambda>ws. Closed) (websocket c)\<rparr>"

text \<open>
  The listener task either has returned, or is suspended in \<^verbatim>\<open>asyncio.sleep(5)\<close> and will
  call \<^verbatim>\<open>connect_websocket\<close> when it wakes.
\<close>

datatype listener = Finished | Sleeping

definition listener_except :: "exn \<Rightarrow> client \<Rightarrow> listener \<times> client" where
  "listener_except e c =
     (if e = ConnectionClosed
      then (Sleeping, emit (Sleep 5) (emit (Print ''WebSocket disconnected'') c))
      else (Finished, emit (Print ''WebSocket error'') c))"

definition websocket_listener :: "wire list \<Rightarrow> ending \<Rightarrow> client \<Rightarrow> listener \<times> client" where
  "websocket_listener messages ending c =
     (case websocket c of
        None \<Rightarrow> (Finished, c)
      | Some ws \<Rightarrow>
          (case listen_loop messages c of
             (Some e, c1) \<Rightarrow> listener_except e c1
           | (None, c1) \<Rightarrow>
               (case ending of
                  Exhausted \<Rightarrow> (Finished, connection_closed c1)
                | Raises e \<Rightarrow> listener_except e (connection_closed c1))))"

text \<open>The listener after its sleep: \<^verbatim>\<open>await self.connect_websocket()\<close>, on the client as it is then.\<close>

definition websocket_listener_wake :: "bool \<Rightarrow> client \<Rightarrow> client" where
  "websocket_listener_wake handshake c = connect_websocket handshake c"

subsection \<open>The duplex call\<close>

text \<open>\<^verbatim>\<open>str(n)\<close> for a natural number.\<close>

fun decimal :: "nat \<Rightarrow> string" where
  "decimal n =
     (if n < 10 then [''0123456789'' ! n] else decimal (n div 10) @ [''0123456789'' ! (n mod 10)])"

declare decimal.simps [simp del]

text \<open>
  \<^verbatim>\<open>f"ws_{int(time.time() * 1000)}_{uuid.uuid4().hex[:8]}"\<close>, from the clock in milliseconds and
  the hexadecimal digits of the UUID.
\<close>

definition make_message_id :: "nat \<Rightarrow> string \<Rightarrow> string" where
  "make_message_id now_ms uuid_hex = ''ws_'' @ decimal now_ms @ ''_'' @ take 8 uuid_hex"

definition call_frame :: "string \<Rightarrow> string \<Rightarrow> string \<Rightarrow> json \<Rightarrow> json" where
  "call_frame message_id target method params =
     JObj [(''type'', JStr ''call''), (''id'', JStr message_id), (''target'', JStr target),
           (''method'', JStr method), (''params'', params)]"

text \<open>
  \<^verbatim>\<open>send_websocket\<close> up to \<^verbatim>\<open>await asyncio.wait_for(future, timeout=10.0)\<close>: it returns the
  identifier and the future the coroutine then waits on. \<^verbatim>\<open>self.websocket.send\<close> raises
  ConnectionClosed on a closed connection; that is outside the \<^verbatim>\<open>try\<close> of the source, and
  the handler registered just before stays in the table.
\<close>

definition send_websocket :: "nat \<Rightarrow> string \<Rightarrow> string \<Rightarrow> string \<Rightarrow> json option \<Rightarrow> client
    \<Rightarrow> (exn + string \<times> nat) \<times> client" where
  "send_websocket now_ms uuid_hex target method params c =
     (case websocket c of
        None \<Rightarrow> (Inl (Exception ''WebSocket not connected''), c)
      | Some ws \<Rightarrow>
          let params = default_params params;
              message_id = make_message_id now_ms uuid_hex;
              future = length (futures c);
              c1 = c\<lparr>futures := futures c @ [Pending],
                     message_handlers := (message_handlers c)(message_id \<mapsto> future)\<rparr>
          in case ws of
               Closed \<Rightarrow> (Inl ConnectionClosed, c1)
             | Open \<Rightarrow> (Inr (message_id, future),
                         emit (WsSend (call_frame message_id target method params)) c1))"

text \<open>
  \<^verbatim>\<open>asyncio.wait_for(future, timeout=10.0)\<close> takes two steps of the event loop, and other
  tasks, the listener among them, run in between. First the timeout elapses: the future,
  still pending, is cancelled (\<open>wait_for_timeout\<close>; on a future that is no longer pending
  the step changes nothing). Later the waiting coroutine resumes (\<open>wait_for\<close>): a future
  with a result gives it, a cancelled one raises TimeoutError, a pending one keeps the
  coroutine waiting (None). No other code cancels a future, and a coroutine always holds
  a future that exists; the last branch is for totality.
\<close>

definition wait_for_timeout :: "nat \<Rightarrow> client \<Rightarrow> client" where
  "wait_for_timeout future c =
     (if future < length (futures c) \<and> futures c ! future = Pending
      then c\<lparr>futures := (futures c)[future := Cancelled]\<rparr>
      else c)"

definition wait_for :: "nat \<Rightarrow> client \<Rightarrow> (exn + json) option" where
  "wait_for future c =
     (if future < length (futures c) then
        (case futures c ! future of
           Result v \<Rightarrow> Some (Inr v)
         | Pending \<Rightarrow> None
         | Cancelled \<Rightarrow> Some (Inl AsyncioTimeoutError))
      else Some (Inl CancelledError))"

text \<open>
  The rest of \<^verbatim>\<open>send_websocket\<close>, when the coroutine resumes: \<^verbatim>\<open>return result\<close>, or on
  \<^verbatim>\<open>asyncio.TimeoutError\<close> \<^verbatim>\<open>self.message_handlers.pop(message_id, None)\<close> and
  \<^verbatim>\<open>raise Exception("WebSocket call timeout")\<close>. The handler is removed here, not when the
  future is cancelled.
\<close>

definition send_websocket_resume :: "string \<Rightarrow> nat \<Rightarrow> client
    \<Rightarrow> (exn + json) option \<times> client" where
  "send_websocket_resume message_id future c =
     (case wait_for future c of
        Some (Inl e) \<Rightarrow>
          if e = AsyncioTimeoutError
          then (Some (Inl (Exception ''WebSocket call timeout'')),
                c\<lparr>message_handlers := (message_handlers c)(message_id := None)\<rparr>)
          else (Some (Inl e), c)
      | r \<Rightarrow> (r, c))"

subsection \<open>Opening and closing\<close>

definition init :: "(request \<Rightarrow> reply) \<Rightarrow> bool \<Rightarrow> client \<Rightarrow> (exn + unit) \<times> client" where
  "init http handshake c =
     (let c1 = emit SessionOpen (c\<lparr>session := True\<rparr>) in
      if auto_register (config c1) then
        (case register http c1 of
           (Inl e, c2) \<Rightarrow> (Inl e, c2)
         | (Inr u, c2) \<Rightarrow> (Inr (), connect_websocket handshake c2))
      else (Inr (), connect_websocket handshake c1))"

text \<open>
  \<^verbatim>\<open>close\<close>. \<open>ws_close\<close> and \<open>session_close\<close> say whether \<^verbatim>\<open>self.websocket.close()\<close> and
  \<^verbatim>\<open>self.session.close()\<close> raise, and what. There is no \<^verbatim>\<open>try\<close> in \<^verbatim>\<open>close\<close>.
\<close>

definition close_websocket :: "exn option \<Rightarrow> client \<Rightarrow> (exn + unit) \<times> client" where
  "close_websocket ws_close c =
     (case websocket c of
        None \<Rightarrow> (Inr (), c)
      | Some ws \<Rightarrow>
          (case ws_close of
             Some e \<Rightarrow> (Inl e, emit WsClose c)
           | None \<Rightarrow> (Inr (), (emit WsClose c)\<lparr>websocket := None\<rparr>)))"

definition close_session :: "exn option \<Rightarrow> client \<Rightarrow> (exn + unit) \<times> client" where
  "close_session session_close c =
     (if session c then
        (case session_close of
           Some e \<Rightarrow> (Inl e, emit SessionClose c)
         | None \<Rightarrow> (Inr (), (emit SessionClose c)\<lparr>session := False\<rparr>))
      else (Inr (), c))"

definition close :: "(request \<Rightarrow> reply) \<Rightarrow> exn option \<Rightarrow> exn option \<Rightarrow> client
    \<Rightarrow> (exn + unit) \<times> client" where
  "close http ws_close session_close c =
     (case close_websocket ws_close c of
        (Inl e, c1) \<Rightarrow> (Inl e, c1)
      | (Inr u, c1) \<Rightarrow>
          (case close_session session_close c1 of
             (Inl e, c2) \<Rightarrow> (Inl e, c2)
           | (Inr u, c2) \<Rightarrow>
               if auto_register (config c2) then unregister http c2 else (Inr (), c2)))"

subsection \<open>Example clients\<close>

text \<open>
  A client opened without auto-registration against a broker whose handshake succeeds,
  and the same client with one duplex call waiting for its response.
\<close>

definition example_config :: InteropConfig where
  "example_config = default_config\<lparr>auto_register := False\<rparr>"

definition example_connected :: client where
  "example_connected = snd (init (\<lambda>r. Fails (ClientError ''unreachable'')) True (new_client example_config))"

definition example_pending :: client where
  "example_pending = snd (send_websocket 5 ''abcdef0123'' ''ts-module'' ''ping'' None example_connected)"

text \<open>
  The connected client after its channel was lost and the reconnection attempt failed: the
  listener ran to \<^verbatim>\<open>asyncio.sleep(5)\<close>, woke, and \<^verbatim>\<open>websockets.connect\<close> raised.
\<close>

definition example_lost :: client where
  "example_lost = websocket_listener_wake False
     (snd (websocket_listener [] (Raises ConnectionClosed) example_connected))"

section \<open>Properties\<close>

lemmas model_defs = new_client_def default_config_def emit_def reraise_def init_def
  connect_websocket_def send_websocket_def make_message_id_def decimal.simps call_frame_def
  default_params_def handle_websocket_message_def json_loads_def listener_except_def
  websocket_listener_def connection_closed_def set_result_def wait_for_def wait_for_timeout_def
  send_websocket_resume_def close_def close_websocket_def close_session_def unregister_def
  register_def register_body_def websocket_listener_wake_def Let_def

lemmas example_defs = example_config_def example_connected_def example_pending_def

lemma example_connected_fields:
  "config example_connected = example_config"
  "websocket example_connected = Some Open"
  "session example_connected"
  "message_handlers example_connected = Map.empty"
  "futures example_connected = []"
  "trace example_connected = [SessionOpen, WsConnect ''ws://localhost:4000'',
     Print ''WebSocket connected'', CreateTask]"
  by (simp_all add: example_defs model_defs)

lemma example_pending_fields:
  "websocket example_pending = Some Open"
  "session example_pending"
  "message_handlers example_pending = [''ws_5_abcdef01'' \<mapsto> 0]"
  "futures example_pending = [Pending]"
  by (simp_all add: example_defs model_defs)

subsection \<open>How one frame is handled\<close>

lemma handle_response_registered:
  assumes "map_of kv ''type'' = Some (JStr ''response'')"
    and "map_of kv ''id'' = Some (JStr message_id)"
    and "map_of kv ''result'' = Some v"
    and "message_handlers c message_id = Some handler"
    and "handler < length (futures c)" and "futures c ! handler = Pending"
  shows "handle_websocket_message (JObj kv) c
    = (Inr (), c\<lparr>message_handlers := (message_handlers c)(message_id := None),
                  futures := (futures c)[handler := Result v]\<rparr>)"
  using assms by (simp add: handle_websocket_message_def set_result_def)

lemma handle_response_unregistered:
  assumes "map_of kv ''type'' = Some (JStr ''response'')"
    and "map_of kv ''id'' = Some (JStr message_id)"
    and "message_handlers c message_id = None"
  shows "handle_websocket_message (JObj kv) c = (Inr (), c)"
  using assms by (simp add: handle_websocket_message_def)

lemma handle_error_frame:
  assumes "map_of kv ''type'' = Some (JStr ''error'')" and "map_of kv ''error'' = Some err"
  shows "handle_websocket_message (JObj kv) c = (Inr (), emit (Print ''WebSocket error'') c)"
  using assms by (simp add: handle_websocket_message_def)

lemma handle_unknown_tag:
  assumes "map_of kv ''type'' = Some t"
    and "t \<noteq> JStr ''modules''" and "t \<noteq> JStr ''response''" and "t \<noteq> JStr ''error''"
  shows "handle_websocket_message (JObj kv) c
    = (Inr (), emit (Print ''Unknown WebSocket message'') c)"
  using assms by (simp add: handle_websocket_message_def)

text \<open>
  Only the first response for an identifier has an effect: once it is handled, the same
  frame again is dropped.
\<close>

lemma second_response_dropped:
  assumes "map_of kv ''type'' = Some (JStr ''response'')"
    and "map_of kv ''id'' = Some (JStr message_id)"
    and "map_of kv ''result'' = Some v"
    and "message_handlers c message_id = Some handler"
    and "handler < length (futures c)" and "futures c ! handler = Pending"
  shows "handle_websocket_message (JObj kv) (snd (handle_websocket_message (JObj kv) c))
     = (Inr (), snd (handle_websocket_message (JObj kv) c))"
  using assms by (simp add: handle_response_registered handle_response_unregistered)

text \<open>A response touches no identifier and no future but its own.\<close>

lemma response_leaves_other_calls:
  assumes "map_of kv ''type'' = Some (JStr ''response'')"
    and "map_of kv ''id'' = Some (JStr message_id)"
    and "map_of kv ''result'' = Some v"
    and "message_handlers c message_id = Some handler"
    and "handler < length (futures c)" and "futures c ! handler = Pending"
    and "other_id \<noteq> message_id" and "other \<noteq> handler"
  shows "message_handlers (snd (handle_websocket_message (JObj kv) c)) other_id
           = message_handlers c other_id"
    and "futures (snd (handle_websocket_message (JObj kv) c)) ! other = futures c ! other"
    and "futures (snd (handle_websocket_message (JObj kv) c)) ! handler = Result v"
  using assms by (simp_all add: handle_response_registered)

subsection \<open>Frames the receive loop skips\<close>

lemma listen_loop_unparseable:
  "listen_loop (Unparseable JSONDecodeError # rest) c
     = listen_loop rest (emit (Print ''Failed to parse WebSocket message'') c)"
  by (simp add: json_loads_def)

text \<open>A frame that \<^verbatim>\<open>json.loads\<close> rejects with any other exception ends the loop.\<close>

lemma listen_loop_other_parse_failure:
  "e \<noteq> JSONDecodeError \<Longrightarrow> listen_loop (Unparseable e # rest) c = (Some e, c)"
  by (simp add: json_loads_def)

lemma listen_loop_unknown_tag:
  assumes "map_of kv ''type'' = Some t"
    and "t \<noteq> JStr ''modules''" and "t \<noteq> JStr ''response''" and "t \<noteq> JStr ''error''"
  shows "listen_loop (Parses (JObj kv) # rest) c
     = listen_loop rest (emit (Print ''Unknown WebSocket message'') c)"
  using assms by (simp add: json_loads_def handle_unknown_tag)

lemma listen_loop_unknown_id:
  assumes "map_of kv ''type'' = Some (JStr ''response'')"
    and "map_of kv ''id'' = Some (JStr message_id)"
    and "message_handlers c message_id = None"
  shows "listen_loop (Parses (JObj kv) # rest) c = listen_loop rest c"
  using assms by (simp add: json_loads_def handle_response_unregistered)

subsection \<open>What leaves the handler table and the futures alone\<close>

lemma listener_keeps_calls:
  "message_handlers (snd (websocket_listener [] ending c)) = message_handlers c"
  "futures (snd (websocket_listener [] ending c)) = futures c"
  by (simp_all add: websocket_listener_def listener_except_def connection_closed_def emit_def
      split: option.split ending.split)

lemma connect_keeps_calls:
  "message_handlers (connect_websocket handshake c) = message_handlers c"
  "futures (connect_websocket handshake c) = futures c"
  by (simp_all add: connect_websocket_def emit_def Let_def)

lemma close_keeps_calls:
  "message_handlers (snd (close http ws_close session_close c)) = message_handlers c"
  "futures (snd (close http ws_close session_close c)) = futures c"
  by (simp_all add: close_def close_websocket_def close_session_def unregister_def reraise_def
      emit_def Let_def split: option.split reply.split sum.split)

lemma resume_pending:
  assumes "future < length (futures c)" and "futures c ! future = Pending"
  shows "send_websocket_resume message_id future c = (None, c)"
  using assms by (simp add: send_websocket_resume_def wait_for_def)

subsection \<open>A timeout, step by step\<close>

text \<open>
  When the timeout of a pending call elapses and its coroutine resumes with no frame
  handled in between, the call raises the timeout exception and its identifier leaves the
  handler table; a response for that identifier that arrives after the resumption is
  dropped, with the client unchanged.
\<close>

lemma timeout_then_resume:
  assumes "future < length (futures c)" and "futures c ! future = Pending"
  shows "fst (send_websocket_resume message_id future (wait_for_timeout future c))
           = Some (Inl (Exception ''WebSocket call timeout''))"
    and "message_handlers (snd (send_websocket_resume message_id future
           (wait_for_timeout future c))) message_id = None"
  using assms by (simp_all add: send_websocket_resume_def wait_for_def wait_for_timeout_def)

lemma response_after_resumption_dropped:
  assumes "future < length (futures c)" and "futures c ! future = Pending"
    and "map_of kv ''type'' = Some (JStr ''response'')"
    and "map_of kv ''id'' = Some (JStr message_id)"
  shows "handle_websocket_message (JObj kv)
           (snd (send_websocket_resume message_id future (wait_for_timeout future c)))
         = (Inr (), snd (send_websocket_resume message_id future (wait_for_timeout future c)))"
proof -
  have "message_handlers (snd (send_websocket_resume message_id future
          (wait_for_timeout future c))) message_id = None"
    using assms(1,2) by (rule timeout_then_resume(2))
  with assms(3,4) show ?thesis
    by (rule handle_response_unregistered)
qed

text \<open>Between the two steps the future is cancelled and the handler still registered.\<close>

lemma timeout_keeps_handler:
  assumes "future < length (futures c)" and "futures c ! future = Pending"
  shows "futures (wait_for_timeout future c) ! future = Cancelled"
    and "message_handlers (wait_for_timeout future c) = message_handlers c"
  using assms by (simp_all add: wait_for_timeout_def)

subsection \<open>Timeout of a duplex call\<close>

text \<open>
  C1. After a timeout the call should fail, its identifier leave the handler table, and a
  response arriving later be dropped without an exception. The source removes the handler
  only when the coroutine resumes, one step of the event loop after the future was
  cancelled. A response handled in between finds the identifier registered: the handler is
  popped and \<^verbatim>\<open>set_result\<close> on the cancelled future raises InvalidStateError, which the
  per-frame \<^verbatim>\<open>try\<close> does not catch, so the outer handler prints and the listener returns.
  The call itself then fails with the timeout exception.
\<close>

theorem response_between_timeout_and_resumption_ends_listener:
  "futures (wait_for_timeout 0 example_pending) = [Cancelled]
   \<and> message_handlers (wait_for_timeout 0 example_pending) ''ws_5_abcdef01'' = Some 0
   \<and> fst (handle_websocket_message
        (JObj [(''type'', JStr ''response''), (''id'', JStr ''ws_5_abcdef01''),
               (''result'', JNum 1)])
        (wait_for_timeout 0 example_pending)) = Inl InvalidStateError
   \<and> fst (listen_loop
        [Parses (JObj [(''type'', JStr ''response''), (''id'', JStr ''ws_5_abcdef01''),
                       (''result'', JNum 1)])]
        (wait_for_timeout 0 example_pending)) = Some InvalidStateError
   \<and> fst (websocket_listener
        [Parses (JObj [(''type'', JStr ''response''), (''id'', JStr ''ws_5_abcdef01''),
                       (''result'', JNum 1)])]
        Exhausted (wait_for_timeout 0 example_pending)) = Finished
   \<and> trace (snd (websocket_listener
        [Parses (JObj [(''type'', JStr ''response''), (''id'', JStr ''ws_5_abcdef01''),
                       (''result'', JNum 1)])]
        Exhausted (wait_for_timeout 0 example_pending)))
       = trace example_pending @ [Print ''WebSocket error'']
   \<and> fst (send_websocket_resume ''ws_5_abcdef01'' 0 (snd (websocket_listener
        [Parses (JObj [(''type'', JStr ''response''), (''id'', JStr ''ws_5_abcdef01''),
                       (''result'', JNum 1)])]
        Exhausted (wait_for_timeout 0 example_pending))))
       = Some (Inl (Exception ''WebSocket call timeout''))"
  by (simp add: example_defs model_defs)

subsection \<open>Default parameters\<close>

text \<open>
  C10. For \<^verbatim>\<open>call\<close>, \<^verbatim>\<open>send\<close> and \<^verbatim>\<open>send_websocket\<close>, leaving \<^verbatim>\<open>params\<close> out (None) is the same
  as passing the empty dictionary: the whole operation is the same, the request posted on
  an open session and the frame sent on an open connection are the ones built from
  \<^verbatim>\<open>{}\<close>, and their \<^verbatim>\<open>params\<close> field is \<^verbatim>\<open>{}\<close>.
\<close>

theorem params_none_is_empty_dict:
  "call http target method None c = call http target method (Some (JObj [])) c
   \<and> send http target method None priority c = send http target method (Some (JObj [])) priority c
   \<and> send_websocket now_ms uuid_hex target method None c
       = send_websocket now_ms uuid_hex target method (Some (JObj [])) c
   \<and> Http (POST (server_url (config c) @ ''/rpc'') (rpc_body target method (JObj [])))
       \<in> set (trace (snd (call http target method None (c\<lparr>session := True\<rparr>))))
   \<and> Http (POST (server_url (config c) @ ''/queue'') (queue_body target method (JObj []) priority))
       \<in> set (trace (snd (send http target method None priority (c\<lparr>session := True\<rparr>))))
   \<and> WsSend (call_frame (make_message_id now_ms uuid_hex) target method (JObj []))
       \<in> set (trace (snd (send_websocket now_ms uuid_hex target method None
                            (c\<lparr>websocket := Some Open\<rparr>))))
   \<and> subscript (rpc_body target method (JObj [])) ''params'' = Inr (JObj [])
   \<and> subscript (queue_body target method (JObj []) priority) ''params'' = Inr (JObj [])
   \<and> subscript (call_frame message_id target method (JObj [])) ''params'' = Inr (JObj [])"
proof -
  have dflt: "default_params None = JObj []" "default_params (Some (JObj [])) = JObj []"
    by (simp_all add: default_params_def)
  have a: "call http target method None c = call http target method (Some (JObj [])) c"
    by (simp add: call_def dflt)
  have b: "send http target method None priority c
      = send http target method (Some (JObj [])) priority c"
    by (simp add: send_def dflt)
  have d: "send_websocket now_ms uuid_hex target method None c
      = send_websocket now_ms uuid_hex target method (Some (JObj [])) c"
    by (cases "websocket c") (simp_all add: send_websocket_def dflt)
  have e: "Http (POST (server_url (config c) @ ''/rpc'') (rpc_body target method (JObj [])))
      \<in> set (trace (snd (call http target method None (c\<lparr>session := True\<rparr>))))"
    by (simp add: call_def dflt Let_def reraise_def emit_def split: reply.split sum.split)
  have f: "Http (POST (server_url (config c) @ ''/queue'') (queue_body target method (JObj []) priority))
      \<in> set (trace (snd (send http target method None priority (c\<lparr>session := True\<rparr>))))"
    by (simp add: send_def dflt Let_def reraise_def emit_def split: reply.split sum.split)
  have g: "WsSend (call_frame (make_message_id now_ms uuid_hex) target method (JObj []))
      \<in> set (trace (snd (send_websocket now_ms uuid_hex target method None
                           (c\<lparr>websocket := Some Open\<rparr>))))"
    by (simp add: send_websocket_def dflt Let_def emit_def)
  have h: "subscript (rpc_body target method (JObj [])) ''params'' = Inr (JObj [])"
    "subscript (queue_body target method (JObj []) priority) ''params'' = Inr (JObj [])"
    "subscript (call_frame message_id target method (JObj [])) ''params'' = Inr (JObj [])"
    by (simp_all add: rpc_body_def queue_body_def call_frame_def)
  from a b d e f g h show ?thesis by blast
qed

subsection \<open>The handler table and the calls in flight\<close>

text \<open>
  C2. The handler table is claimed to hold exactly the identifiers of the duplex calls in
  flight. On the client whose connection was lost, \<^verbatim>\<open>self.websocket\<close> is still the closed
  connection object, so \<^verbatim>\<open>send_websocket\<close> passes its check, registers the handler, and
  \<^verbatim>\<open>self.websocket.send\<close> raises ConnectionClosed outside the \<^verbatim>\<open>try\<close>: the call has failed and
  its identifier stays in the table. The timeout path does remove its identifier; this
  path does not.
\<close>

theorem send_on_lost_connection_leaves_handler:
  "websocket example_lost = Some Closed
   \<and> message_handlers example_lost = Map.empty
   \<and> fst (send_websocket 5 ''abcdef0123'' ''ts-module'' ''ping'' None example_lost)
       = Inl ConnectionClosed
   \<and> message_handlers (snd (send_websocket 5 ''abcdef0123'' ''ts-module'' ''ping'' None example_lost))
        ''ws_5_abcdef01'' = Some 0"
  by (simp add: example_lost_def example_defs model_defs)

subsection \<open>Loss of the duplex channel\<close>

text \<open>
  C3, as the code has it. Losing the channel fails no pending call: the listener's
  handling of the loss, and its reconnection attempt afterwards, leave the handler table
  and every future as they were, so a call pending at that moment is still registered and
  still waiting after either step and after both.
\<close>

theorem channel_loss_leaves_calls_pending:
  assumes "future < length (futures c)" and "futures c ! future = Pending"
  shows "message_handlers (snd (websocket_listener [] ending c)) = message_handlers c
   \<and> futures (snd (websocket_listener [] ending c)) = futures c
   \<and> message_handlers (websocket_listener_wake handshake c) = message_handlers c
   \<and> futures (websocket_listener_wake handshake c) = futures c
   \<and> fst (send_websocket_resume message_id future (snd (websocket_listener [] ending c)))
       = None
   \<and> fst (send_websocket_resume message_id future (websocket_listener_wake handshake c))
       = None
   \<and> fst (send_websocket_resume message_id future
            (websocket_listener_wake handshake (snd (websocket_listener [] ending c))))
       = None"
proof -
  have after_loss: "future < length (futures (snd (websocket_listener [] ending c)))"
      "futures (snd (websocket_listener [] ending c)) ! future = Pending"
    using assms by (simp_all add: listener_keeps_calls)
  have after_wake: "future < length (futures (websocket_listener_wake handshake c))"
      "futures (websocket_listener_wake handshake c) ! future = Pending"
    using assms by (simp_all add: connect_keeps_calls websocket_listener_wake_def)
  have after_both: "future < length (futures
        (websocket_listener_wake handshake (snd (websocket_listener [] ending c))))"
      "futures (websocket_listener_wake handshake (snd (websocket_listener [] ending c)))
         ! future = Pending"
    using assms
    by (simp_all add: connect_keeps_calls websocket_listener_wake_def listener_keeps_calls)
  show ?thesis
    by (simp add: listener_keeps_calls connect_keeps_calls websocket_listener_wake_def
        resume_pending [OF after_loss] resume_pending [OF after_wake [unfolded websocket_listener_wake_def]]
        resume_pending [OF after_both [unfolded websocket_listener_wake_def]])
qed

theorem channel_loss_leaves_calls_pending_witness:
  "0 < length (futures example_pending) \<and> futures example_pending ! 0 = Pending
   \<and> futures (snd (websocket_listener [] (Raises ConnectionClosed) example_pending)) = [Pending]
   \<and> futures (websocket_listener_wake False example_pending) = [Pending]
   \<and> fst (send_websocket_resume ''ws_5_abcdef01'' 0
            (websocket_listener_wake False
              (snd (websocket_listener [] (Raises ConnectionClosed) example_pending))))
       = None"
proof -
  have pending: "0 < length (futures example_pending)" "futures example_pending ! 0 = Pending"
    by (simp_all add: example_pending_fields)
  from channel_loss_leaves_calls_pending [OF pending, of "Raises ConnectionClosed" False
      "''ws_5_abcdef01''"] pending
  show ?thesis by (simp add: example_pending_fields)
qed

text \<open>
  C3 as stated fails: with one call pending, the listener meets ConnectionClosed and goes
  to sleep; the future is still pending, its handler still registered, and the call is
  still waiting.
\<close>

theorem channel_loss_fails_no_call:
  "fst (websocket_listener [] (Raises ConnectionClosed) example_pending) = Sleeping
   \<and> futures (snd (websocket_listener [] (Raises ConnectionClosed) example_pending)) = [Pending]
   \<and> message_handlers (snd (websocket_listener [] (Raises ConnectionClosed) example_pending))
        ''ws_5_abcdef01'' = Some 0
   \<and> fst (send_websocket_resume ''ws_5_abcdef01'' 0
            (snd (websocket_listener [] (Raises ConnectionClosed) example_pending))) = None"
proof -
  have "fst (websocket_listener [] (Raises ConnectionClosed) example_pending) = Sleeping"
    by (simp add: websocket_listener_def listener_except_def example_pending_fields)
  moreover have "send_websocket_resume ''ws_5_abcdef01'' 0
            (snd (websocket_listener [] (Raises ConnectionClosed) example_pending))
        = (None, snd (websocket_listener [] (Raises ConnectionClosed) example_pending))"
    by (rule resume_pending) (simp_all add: listener_keeps_calls example_pending_fields)
  ultimately show ?thesis
    by (simp add: listener_keeps_calls example_pending_fields)
qed

subsection \<open>Response and error frames\<close>

text \<open>
  C4, as the code has it. A response frame whose identifier is registered and which
  carries a result removes the entry and completes the waiting future with that result.
  An error frame is only printed: the handler table and the futures stay as they were,
  whatever identifier the frame carries.
\<close>

theorem response_completes_call_error_is_only_printed:
  "(map_of kv ''type'' = Some (JStr ''response'') \<longrightarrow> map_of kv ''id'' = Some (JStr message_id)
      \<longrightarrow> map_of kv ''result'' = Some v \<longrightarrow> message_handlers c message_id = Some handler
      \<longrightarrow> handler < length (futures c) \<longrightarrow> futures c ! handler = Pending
      \<longrightarrow> handle_websocket_message (JObj kv) c
          = (Inr (), c\<lparr>message_handlers := (message_handlers c)(message_id := None),
                        futures := (futures c)[handler := Result v]\<rparr>))
   \<and> (map_of kv ''type'' = Some (JStr ''error'') \<longrightarrow> map_of kv ''error'' = Some err
      \<longrightarrow> handle_websocket_message (JObj kv) c = (Inr (), emit (Print ''WebSocket error'') c)
        \<and> message_handlers (snd (handle_websocket_message (JObj kv) c)) = message_handlers c
        \<and> futures (snd (handle_websocket_message (JObj kv) c)) = futures c)"
  by (simp add: handle_response_registered handle_error_frame emit_def)

theorem response_completes_call_error_is_only_printed_witness:
  "futures (snd (handle_websocket_message
       (JObj [(''type'', JStr ''response''), (''id'', JStr ''ws_5_abcdef01''), (''result'', JNum 1)])
       example_pending)) = [Result (JNum 1)]
   \<and> message_handlers (snd (handle_websocket_message
       (JObj [(''type'', JStr ''response''), (''id'', JStr ''ws_5_abcdef01''), (''result'', JNum 1)])
       example_pending)) ''ws_5_abcdef01'' = None
   \<and> futures (snd (handle_websocket_message
       (JObj [(''type'', JStr ''error''), (''id'', JStr ''ws_5_abcdef01''), (''error'', JStr ''boom'')])
       example_pending)) = [Pending]"
  using response_completes_call_error_is_only_printed
      [where kv = "[(''type'', JStr ''response''), (''id'', JStr ''ws_5_abcdef01''),
                    (''result'', JNum 1)]"
         and message_id = "''ws_5_abcdef01''" and v = "JNum 1" and c = example_pending
         and handler = 0]
    response_completes_call_error_is_only_printed
      [where kv = "[(''type'', JStr ''error''), (''id'', JStr ''ws_5_abcdef01''),
                    (''error'', JStr ''boom'')]"
         and c = example_pending and err = "JStr ''boom''"]
  by (simp add: example_pending_fields emit_def)

text \<open>
  C4 as stated fails: an error frame carrying the identifier of the pending call is
  handled without an exception, and the call is still pending, its handler registered.
\<close>

theorem error_frame_leaves_call_pending:
  "fst (handle_websocket_message
          (JObj [(''type'', JStr ''error''), (''id'', JStr ''ws_5_abcdef01''),
                 (''error'', JStr ''boom'')])
          example_pending) = Inr ()
   \<and> futures (snd (handle_websocket_message
          (JObj [(''type'', JStr ''error''), (''id'', JStr ''ws_5_abcdef01''),
                 (''error'', JStr ''boom'')])
          example_pending)) = [Pending]
   \<and> message_handlers (snd (handle_websocket_message
          (JObj [(''type'', JStr ''error''), (''id'', JStr ''ws_5_abcdef01''),
                 (''error'', JStr ''boom'')])
          example_pending)) ''ws_5_abcdef01'' = Some 0
   \<and> fst (send_websocket_resume ''ws_5_abcdef01'' 0 (snd (handle_websocket_message
          (JObj [(''type'', JStr ''error''), (''id'', JStr ''ws_5_abcdef01''),
                 (''error'', JStr ''boom'')])
          example_pending))) = None"
  by (simp add: example_pending_fields handle_error_frame emit_def resume_pending)

subsection \<open>Reconnection\<close>

text \<open>
  C5, as the code has it. After a loss reported as ConnectionClosed the listener prints,
  waits a fixed 5 seconds, and makes one reconnection attempt, on the client as it is when
  the listener wakes, whether or not \<^verbatim>\<open>close\<close> has run meanwhile. A handshake that
  succeeds installs the new connection and starts a new listener, which handles the next
  loss the same way; a handshake that fails is printed and nothing is started, so no
  further attempt follows. A channel whose iteration ends without an exception is not
  reconnected.
\<close>

theorem one_reconnection_attempt_after_fixed_delay:
  "(websocket c \<noteq> None \<longrightarrow>
      websocket_listener [] (Raises ConnectionClosed) c
        = (Sleeping, emit (Sleep 5) (emit (Print ''WebSocket disconnected'') (connection_closed c))))
   \<and> trace (websocket_listener_wake False c')
        = trace c' @ [WsConnect (replace_http_ws (server_url (config c'))),
                      Print ''Failed to connect WebSocket'']
   \<and> websocket (websocket_listener_wake False c') = websocket c'
   \<and> trace (websocket_listener_wake True c')
        = trace c' @ [WsConnect (replace_http_ws (server_url (config c'))),
                      Print ''WebSocket connected'', CreateTask]
   \<and> websocket (websocket_listener_wake True c') = Some Open
   \<and> fst (websocket_listener [] Exhausted c) = Finished
   \<and> trace (snd (websocket_listener [] Exhausted c)) = trace c"
  by (auto simp add: websocket_listener_def listener_except_def websocket_listener_wake_def
      connect_websocket_def emit_def connection_closed_def Let_def split: option.split)

theorem one_reconnection_attempt_after_fixed_delay_witness:
  "websocket example_connected \<noteq> None
   \<and> fst (websocket_listener [] (Raises ConnectionClosed) example_connected) = Sleeping
   \<and> trace (snd (websocket_listener [] (Raises ConnectionClosed) example_connected))
       = trace example_connected @ [Print ''WebSocket disconnected'', Sleep 5]
   \<and> websocket (websocket_listener_wake True example_lost) = Some Open"
  using one_reconnection_attempt_after_fixed_delay [of example_connected example_lost]
  by (simp add: example_connected_fields emit_def connection_closed_def)

text \<open>
  C5 as stated fails. The handshake of the one attempt fails: the trace ends with the
  failed connect, no listener is started, and the client keeps the closed connection;
  nothing retries. And \<^verbatim>\<open>close\<close> during the sleep stops nothing: the listener wakes and
  connects the closed client again.
\<close>

theorem no_retry_and_reconnect_after_close:
  "fst (websocket_listener [] (Raises ConnectionClosed) example_connected) = Sleeping
   \<and> trace (websocket_listener_wake False
              (snd (websocket_listener [] (Raises ConnectionClosed) example_connected)))
       = trace example_connected @ [Print ''WebSocket disconnected'', Sleep 5,
            WsConnect ''ws://localhost:4000'', Print ''Failed to connect WebSocket'']
   \<and> websocket (websocket_listener_wake False
              (snd (websocket_listener [] (Raises ConnectionClosed) example_connected)))
       = Some Closed
   \<and> fst (close (\<lambda>r. Fails (ClientError ''unreachable'')) None None
              (snd (websocket_listener [] (Raises ConnectionClosed) example_connected))) = Inr ()
   \<and> websocket (websocket_listener_wake True
              (snd (close (\<lambda>r. Fails (ClientError ''unreachable'')) None None
                (snd (websocket_listener [] (Raises ConnectionClosed) example_connected)))))
       = Some Open"
  by (simp add: example_defs model_defs)

subsection \<open>Closing with calls outstanding\<close>

text \<open>
  C6, as the code has it. \<^verbatim>\<open>close\<close> resolves no outstanding call: whatever its steps do, the
  handler table and every future are as before, so a call pending when \<^verbatim>\<open>close\<close> runs is
  still registered and still waiting when \<^verbatim>\<open>close\<close> has returned or raised.
\<close>

theorem close_leaves_calls_pending:
  assumes "future < length (futures c)" and "futures c ! future = Pending"
  shows "message_handlers (snd (close http ws_close session_close c)) = message_handlers c
   \<and> futures (snd (close http ws_close session_close c)) = futures c
   \<and> fst (send_websocket_resume message_id future
            (snd (close http ws_close session_close c))) = None"
proof -
  have "future < length (futures (snd (close http ws_close session_close c)))"
    and "futures (snd (close http ws_close session_close c)) ! future = Pending"
    using assms by (simp_all add: close_keeps_calls)
  then show ?thesis
    by (simp add: close_keeps_calls resume_pending)
qed

theorem close_leaves_calls_pending_witness:
  "0 < length (futures example_pending) \<and> futures example_pending ! 0 = Pending
   \<and> futures (snd (close (\<lambda>r. Fails (ClientError ''unreachable'')) None None example_pending))
       = [Pending]
   \<and> fst (send_websocket_resume ''ws_5_abcdef01'' 0
            (snd (close (\<lambda>r. Fails (ClientError ''unreachable'')) None None example_pending)))
       = None"
proof -
  have pending: "0 < length (futures example_pending)" "futures example_pending ! 0 = Pending"
    by (simp_all add: example_pending_fields)
  from close_leaves_calls_pending [OF pending, of "\<lambda>r. Fails (ClientError ''unreachable'')"
      None None "''ws_5_abcdef01''"] pending
  show ?thesis by (simp add: example_pending_fields)
qed

text \<open>
  C6 as stated fails: \<^verbatim>\<open>close\<close> on the client with one pending call returns normally and
  clears the connection, and the call is still pending, its handler registered.
\<close>

theorem close_resolves_no_call:
  "fst (close (\<lambda>r. Fails (ClientError ''unreachable'')) None None example_pending) = Inr ()
   \<and> websocket (snd (close (\<lambda>r. Fails (ClientError ''unreachable'')) None None example_pending))
       = None
   \<and> futures (snd (close (\<lambda>r. Fails (ClientError ''unreachable'')) None None example_pending))
       = [Pending]
   \<and> message_handlers
        (snd (close (\<lambda>r. Fails (ClientError ''unreachable'')) None None example_pending))
        ''ws_5_abcdef01'' = Some 0
   \<and> fst (send_websocket_resume ''ws_5_abcdef01'' 0
            (snd (close (\<lambda>r. Fails (ClientError ''unreachable'')) None None example_pending)))
       = None"
  by (simp add: example_defs model_defs)

subsection \<open>The receive loop\<close>

text \<open>
  C7. No single inbound frame should end the receive loop. The frame
  \<^verbatim>\<open>{"type": "modules"}\<close> parses, and \<^verbatim>\<open>message['data']\<close> raises KeyError; the inner \<^verbatim>\<open>try\<close>
  catches JSONDecodeError only, so the exception reaches the outer handler, which prints
  and ends the listener. The response that follows is never read and its call stays
  pending; without the first frame the same response completes the call.
\<close>

theorem frame_without_expected_key_ends_listener:
  "fst (websocket_listener
          [Parses (JObj [(''type'', JStr ''modules'')]),
           Parses (JObj [(''type'', JStr ''response''), (''id'', JStr ''ws_5_abcdef01''),
                         (''result'', JNum 1)])]
          Exhausted example_pending) = Finished
   \<and> trace (snd (websocket_listener
          [Parses (JObj [(''type'', JStr ''modules'')]),
           Parses (JObj [(''type'', JStr ''response''), (''id'', JStr ''ws_5_abcdef01''),
                         (''result'', JNum 1)])]
          Exhausted example_pending)) = trace example_pending @ [Print ''WebSocket error'']
   \<and> futures (snd (websocket_listener
          [Parses (JObj [(''type'', JStr ''modules'')]),
           Parses (JObj [(''type'', JStr ''response''), (''id'', JStr ''ws_5_abcdef01''),
                         (''result'', JNum 1)])]
          Exhausted example_pending)) = [Pending]
   \<and> futures (snd (websocket_listener
          [Parses (JObj [(''type'', JStr ''response''), (''id'', JStr ''ws_5_abcdef01''),
                         (''result'', JNum 1)])]
          Exhausted example_pending)) = [Result (JNum 1)]"
  by (simp add: example_defs model_defs)

subsection \<open>Opening\<close>

text \<open>
  C8, as the code has it. \<^verbatim>\<open>init\<close> never fails because of the duplex handshake: its outcome
  is the same whether the handshake succeeds or not, and the request/reply session is set
  either way. When \<^verbatim>\<open>init\<close> returns normally it has attempted the connection as its last
  step: a handshake that fails is printed and leaves the client without a connection, so
  that a later \<^verbatim>\<open>send_websocket\<close> raises "WebSocket not connected"; one that succeeds
  installs the connection and starts the listener. \<^verbatim>\<open>init\<close> fails exactly when
  auto-registration is on and \<^verbatim>\<open>register\<close> fails; without auto-registration it always
  returns normally.
\<close>

theorem init_outcome_does_not_depend_on_handshake:
  "fst (init http False c) = fst (init http True c)
   \<and> session (snd (init http handshake c))
   \<and> websocket (snd (init http False c)) = websocket c
   \<and> (\<not> auto_register (config c) \<longrightarrow> fst (init http handshake c) = Inr ())
   \<and> (auto_register (config c) \<longrightarrow>
        fst (init http handshake c) = fst (register http (emit SessionOpen (c\<lparr>session := True\<rparr>))))
   \<and> (websocket c = None \<longrightarrow> fst (init http False c) = Inr () \<longrightarrow>
        fst (send_websocket now_ms uuid_hex target method params (snd (init http False c)))
          = Inl (Exception ''WebSocket not connected''))
   \<and> (fst (init http False c) = Inr () \<longrightarrow>
        trace (snd (init http False c))
          = trace (if auto_register (config c)
                   then snd (register http (emit SessionOpen (c\<lparr>session := True\<rparr>)))
                   else emit SessionOpen (c\<lparr>session := True\<rparr>))
            @ [WsConnect (replace_http_ws (server_url (config c))),
               Print ''Failed to connect WebSocket''])
   \<and> (fst (init http True c) = Inr () \<longrightarrow>
        websocket (snd (init http True c)) = Some Open
        \<and> trace (snd (init http True c))
          = trace (if auto_register (config c)
                   then snd (register http (emit SessionOpen (c\<lparr>session := True\<rparr>)))
                   else emit SessionOpen (c\<lparr>session := True\<rparr>))
            @ [WsConnect (replace_http_ws (server_url (config c))),
               Print ''WebSocket connected'', CreateTask])
   \<and> (\<not> auto_register (config c) \<longrightarrow>
        trace (snd (init http False c))
          = trace c @ [SessionOpen, WsConnect (replace_http_ws (server_url (config c))),
                       Print ''Failed to connect WebSocket''])"
  by (auto simp add: init_def register_def reraise_def connect_websocket_def emit_def Let_def
      send_websocket_def split: prod.split sum.split reply.split if_splits)

theorem init_outcome_does_not_depend_on_handshake_witness:
  "\<not> auto_register (config (new_client example_config))
   \<and> websocket (new_client example_config) = None
   \<and> fst (init (\<lambda>r. Fails (ClientError ''unreachable'')) False (new_client example_config)) = Inr ()
   \<and> fst (send_websocket 5 ''abcdef0123'' ''ts-module'' ''ping'' None
        (snd (init (\<lambda>r. Fails (ClientError ''unreachable'')) False (new_client example_config))))
       = Inl (Exception ''WebSocket not connected'')
   \<and> trace (snd (init (\<lambda>r. Fails (ClientError ''unreachable'')) False (new_client example_config)))
       = [SessionOpen, WsConnect ''ws://localhost:4000'', Print ''Failed to connect WebSocket'']
   \<and> fst (init (\<lambda>r. Fails (ClientError ''unreachable'')) True (new_client example_config)) = Inr ()
   \<and> websocket (snd (init (\<lambda>r. Fails (ClientError ''unreachable'')) True
                       (new_client example_config))) = Some Open
   \<and> auto_register (config (new_client default_config))
   \<and> fst (init (\<lambda>r. Fails (ClientError ''unreachable'')) True (new_client default_config))
       = Inl (ClientError ''unreachable'')"
proof -
  let ?down = "\<lambda>r. Fails (ClientError ''unreachable'')"
  note plain = init_outcome_does_not_depend_on_handshake
      [of ?down "new_client example_config" False 5 "''abcdef0123''" "''ts-module''" "''ping''" None]
  note plain_ok = init_outcome_does_not_depend_on_handshake
      [of ?down "new_client example_config" True]
  note auto = init_outcome_does_not_depend_on_handshake
      [of ?down "new_client default_config" True]
  have h1: "\<not> auto_register (config (new_client example_config))"
    and h2: "websocket (new_client example_config) = None"
    and h3: "auto_register (config (new_client default_config))"
    by (simp_all add: new_client_def example_config_def default_config_def)
  from plain h1 have r1: "fst (init ?down False (new_client example_config)) = Inr ()"
    by blast
  from plain h2 r1 have r2: "fst (send_websocket 5 ''abcdef0123'' ''ts-module'' ''ping'' None
        (snd (init ?down False (new_client example_config))))
       = Inl (Exception ''WebSocket not connected'')"
    by blast
  from plain h1 have "trace (snd (init ?down False (new_client example_config)))
      = trace (new_client example_config)
        @ [SessionOpen, WsConnect (replace_http_ws (server_url (config (new_client example_config)))),
           Print ''Failed to connect WebSocket'']"
    by blast
  then have r3: "trace (snd (init ?down False (new_client example_config)))
      = [SessionOpen, WsConnect ''ws://localhost:4000'', Print ''Failed to connect WebSocket'']"
    by (simp add: new_client_def example_config_def default_config_def)
  from plain_ok h1 have r4: "fst (init ?down True (new_client example_config)) = Inr ()"
    by blast
  with plain_ok have r5: "websocket (snd (init ?down True (new_client example_config))) = Some Open"
    by blast
  from auto h3 have "fst (init ?down True (new_client default_config))
      = fst (register ?down (emit SessionOpen ((new_client default_config)\<lparr>session := True\<rparr>)))"
    by blast
  also have "\<dots> = Inl (ClientError ''unreachable'')"
    by (simp add: register_def reraise_def emit_def Let_def)
  finally have r6: "fst (init ?down True (new_client default_config))
      = Inl (ClientError ''unreachable'')" .
  from h1 h2 h3 r1 r2 r3 r4 r5 r6 show ?thesis by blast
qed

text \<open>
  C8 as stated fails: with the handshake failing and registration succeeding, \<^verbatim>\<open>init\<close>
  returns normally and the client has no connection; and with the default configuration a
  broker that cannot be reached makes \<^verbatim>\<open>init\<close> fail at once, through \<^verbatim>\<open>register\<close>.
\<close>

theorem init_returns_normally_when_handshake_fails:
  "fst (init (\<lambda>r. Reply 200 (JObj [(''message'', JStr ''ok'')])) False (new_client default_config))
     = Inr ()
   \<and> websocket (snd (init (\<lambda>r. Reply 200 (JObj [(''message'', JStr ''ok'')])) False
                       (new_client default_config))) = None
   \<and> fst (init (\<lambda>r. Fails (ClientError ''unreachable'')) True (new_client default_config))
       = Inl (ClientError ''unreachable'')"
  by (simp add: model_defs)

subsection \<open>Closing\<close>

text \<open>
  C9, as the code has it. \<^verbatim>\<open>close\<close> closes the duplex channel, then the request/reply
  session, then calls \<^verbatim>\<open>unregister\<close> if auto-registration is on, in that order. The steps are
  not best-effort: \<^verbatim>\<open>close\<close> has no exception handling, so an exception raised by one step
  leaves \<^verbatim>\<open>close\<close> at once and the later steps do not run.
\<close>

theorem close_steps_in_order_until_first_failure:
  "(websocket c \<noteq> None \<longrightarrow> close http (Some e) session_close c = (Inl e, emit WsClose c))
   \<and> (websocket c \<noteq> None \<longrightarrow> session c \<longrightarrow>
        close http None (Some e) c
          = (Inl e, emit SessionClose ((emit WsClose c)\<lparr>websocket := None\<rparr>)))
   \<and> (websocket c \<noteq> None \<longrightarrow> session c \<longrightarrow> \<not> auto_register (config c) \<longrightarrow>
        close http None None c
          = (Inr (), (emit SessionClose ((emit WsClose c)\<lparr>websocket := None\<rparr>))\<lparr>session := False\<rparr>)
        \<and> trace (snd (close http None None c)) = trace c @ [WsClose, SessionClose])
   \<and> (websocket c \<noteq> None \<longrightarrow> session c \<longrightarrow> auto_register (config c) \<longrightarrow>
        close http None None c
          = unregister http
              ((emit SessionClose ((emit WsClose c)\<lparr>websocket := None\<rparr>))\<lparr>session := False\<rparr>)
        \<and> take (length (trace c) + 2) (trace (snd (close http None None c)))
            = trace c @ [WsClose, SessionClose])"
  by (auto simp add: close_def close_websocket_def close_session_def emit_def unregister_def
      reraise_def Let_def split: option.split)

theorem close_steps_in_order_until_first_failure_witness:
  "websocket example_connected \<noteq> None \<and> session example_connected
   \<and> \<not> auto_register (config example_connected)
   \<and> fst (close (\<lambda>r. Reply 200 (JObj [(''message'', JStr ''ok'')])) (Some ConnectionClosed) None
            example_connected) = Inl ConnectionClosed
   \<and> fst (close (\<lambda>r. Reply 200 (JObj [(''message'', JStr ''ok'')])) None (Some (ClientError ''reset''))
            example_connected) = Inl (ClientError ''reset'')
   \<and> trace (snd (close (\<lambda>r. Reply 200 (JObj [(''message'', JStr ''ok'')])) None None
            example_connected)) = trace example_connected @ [WsClose, SessionClose]
   \<and> auto_register (config (example_connected\<lparr>config := default_config\<rparr>))
   \<and> take (length (trace example_connected) + 2)
        (trace (snd (close (\<lambda>r. Reply 200 (JObj [(''message'', JStr ''ok'')])) None None
            (example_connected\<lparr>config := default_config\<rparr>))))
       = trace example_connected @ [WsClose, SessionClose]"
proof -
  let ?ok = "\<lambda>r. Reply 200 (JObj [(''message'', JStr ''ok'')])"
  let ?auto = "example_connected\<lparr>config := default_config\<rparr>"
  note ws_fails = close_steps_in_order_until_first_failure
      [where c = example_connected and http = ?ok and e = ConnectionClosed
         and session_close = None]
  note session_fails = close_steps_in_order_until_first_failure
      [where c = example_connected and http = ?ok and e = "ClientError ''reset''"
         and session_close = None]
  note with_auto = close_steps_in_order_until_first_failure
      [where c = ?auto and http = ?ok and e = ConnectionClosed and session_close = None]
  have h1: "websocket example_connected \<noteq> None" and h2: "session example_connected"
    and h3: "\<not> auto_register (config example_connected)"
    by (simp_all add: example_connected_fields example_config_def default_config_def)
  have h4: "websocket ?auto \<noteq> None" and h5: "session ?auto"
    and h6: "auto_register (config ?auto)" and h7: "trace ?auto = trace example_connected"
    by (simp_all add: example_connected_fields default_config_def)
  from ws_fails h1
  have "close ?ok (Some ConnectionClosed) None example_connected
      = (Inl ConnectionClosed, emit WsClose example_connected)"
    by blast
  then have r1: "fst (close ?ok (Some ConnectionClosed) None example_connected)
      = Inl ConnectionClosed"
    by simp
  from session_fails h1 h2
  have "close ?ok None (Some (ClientError ''reset'')) example_connected
      = (Inl (ClientError ''reset''),
         emit SessionClose ((emit WsClose example_connected)\<lparr>websocket := None\<rparr>))"
    by blast
  then have r2: "fst (close ?ok None (Some (ClientError ''reset'')) example_connected)
      = Inl (ClientError ''reset'')"
    by simp
  from ws_fails h1 h2 h3
  have r3: "trace (snd (close ?ok None None example_connected))
      = trace example_connected @ [WsClose, SessionClose]"
    by blast
  from with_auto h4 h5 h6
  have "take (length (trace ?auto) + 2) (trace (snd (close ?ok None None ?auto)))
      = trace ?auto @ [WsClose, SessionClose]"
    by blast
  with h7 have r4: "take (length (trace example_connected) + 2)
        (trace (snd (close ?ok None None ?auto)))
      = trace example_connected @ [WsClose, SessionClose]"
    by simp
  from h1 h2 h3 h6 r1 r2 r3 r4 show ?thesis by blast
qed

text \<open>
  C9 as stated fails: when closing the duplex channel raises, \<^verbatim>\<open>close\<close> raises the same
  exception; the session is still open and the trace shows neither the session being
  closed nor any attempt to unregister, although auto-registration is on.
\<close>

theorem close_stops_at_first_failing_step:
  "auto_register (config (example_connected\<lparr>config := default_config\<rparr>))
   \<and> fst (close (\<lambda>r. Reply 200 (JObj [(''message'', JStr ''ok'')])) (Some ConnectionClosed) None
         (example_connected\<lparr>config := default_config\<rparr>)) = Inl ConnectionClosed
   \<and> session (snd (close (\<lambda>r. Reply 200 (JObj [(''message'', JStr ''ok'')]))
         (Some ConnectionClosed) None (example_connected\<lparr>config := default_config\<rparr>)))
   \<and> trace (snd (close (\<lambda>r. Reply 200 (JObj [(''message'', JStr ''ok'')]))
         (Some ConnectionClosed) None (example_connected\<lparr>config := default_config\<rparr>)))
       = trace example_connected @ [WsClose]"
  by (simp add: example_defs model_defs)

end
